theory Spec2Isabelle
  imports Complex_Main "HOL-Library.AList"
begin

section \<open>Python values, dictionaries and exceptions\<close>

text \<open>
  The document service is Python. Its dictionaries hold heterogeneous values, so a value is
  a small tagged union; a dictionary is an association list in insertion order, read with
  \<open>map_of\<close> and written with \<open>AList.update\<close> (an existing key keeps its place, a new
  key goes to the end, as in Python). Python floats are modelled as real numbers: sums,
  means and comparisons are exact; the field confidence, whose value depends on the
  rounding of each product, is also given in double precision. A string is a list of 8-bit
  characters, read as the code points below 256.
\<close>

datatype pyval = PNone | PNum real | PStr string | PDict "(string \<times> pyval) list"

type_synonym pydict = "(string \<times> pyval) list"

datatype error =
  ValueError | KeyError | TypeError | IndexError | NameError | UnboundLocalError | ExternalError

type_synonym datetime = nat

text \<open>\<open>key in d\<close>\<close>

definition has_key :: "pydict \<Rightarrow> string \<Rightarrow> bool" where
  "has_key d k = (map_of d k \<noteq> None)"

text \<open>\<open>d[key]\<close>, raising KeyError on a missing key\<close>

definition getitem :: "pydict \<Rightarrow> string \<Rightarrow> error + pyval" where
  "getitem d k = (case map_of d k of None \<Rightarrow> Inl KeyError | Some v \<Rightarrow> Inr v)"

text \<open>\<open>d.update(other)\<close>: every item of \<open>other\<close>, in order, is stored into \<open>d\<close>\<close>

definition dict_update :: "pydict \<Rightarrow> pydict \<Rightarrow> pydict" where
  "dict_update d other = fold (\<lambda>(k, v). AList.update k v) other d"

section \<open>models/document.py\<close>

definition DOCUMENT_TYPES :: "string list" where
  "DOCUMENT_TYPES =
     [''ISO_APPLICATION'', ''BANK_STATEMENT'', ''VOIDED_CHECK'', ''BUSINESS_LICENSE'', ''TAX_RETURN'']"

definition PROCESSING_STATUSES :: "string list" where
  "PROCESSING_STATUSES = [''PENDING'', ''PROCESSING'', ''COMPLETED'', ''FAILED'']"

record document =
  doc_id :: string
  application_id :: string
  file_name :: string
  file_type :: string
  mime_type :: string
  file_size :: int
  storage_path :: "string option"
  document_type :: "string option"
  processing_status :: string
  metadata :: pydict
  classification_result :: "string option"
  ocr_result :: pydict
  created_at :: datetime
  updated_at :: datetime
  created_by :: string
  updated_by :: string

text \<open>
  \<open>Document.__init__\<close>. The fresh uuid and the reading of the clock are arguments.
\<close>

definition new_document ::
  "string \<Rightarrow> datetime \<Rightarrow> string \<Rightarrow> string \<Rightarrow> string \<Rightarrow> string \<Rightarrow> int \<Rightarrow> string \<Rightarrow> document" where
  "new_document uuid4 current_time app_id fname ftype mtype fsize creator =
     \<lparr> doc_id = uuid4, application_id = app_id, file_name = fname, file_type = ftype,
       mime_type = mtype, file_size = fsize, storage_path = None, document_type = None,
       processing_status = ''PENDING'', metadata = [], classification_result = None,
       ocr_result = [], created_at = current_time, updated_at = current_time,
       created_by = creator, updated_by = creator \<rparr>"

text \<open>
  A method that mutates the document returns its outcome together with the document as the
  call leaves it, so that a raise after a partial mutation would be visible.
  Every \<open>datetime.utcnow()\<close> of the source is an argument.
\<close>

definition update_processing_status ::
  "datetime \<Rightarrow> string \<Rightarrow> pydict \<Rightarrow> document \<Rightarrow> (error + unit) \<times> document" where
  "update_processing_status now status result_data self =
     (if status \<notin> set PROCESSING_STATUSES then (Inl ValueError, self)
      else (Inr (),
            self\<lparr> processing_status := status,
                  metadata := dict_update (metadata self) result_data,
                  updated_at := now \<rparr>))"

definition set_classification ::
  "datetime \<Rightarrow> string \<Rightarrow> pydict \<Rightarrow> document \<Rightarrow> (error + unit) \<times> document" where
  "set_classification now new_type classification_metadata self =
     (if new_type \<notin> set DOCUMENT_TYPES then (Inl ValueError, self)
      else (Inr (),
            self\<lparr> document_type := Some new_type,
                  classification_result := Some new_type,
                  metadata := AList.update ''classification'' (PDict classification_metadata)
                                (metadata self),
                  updated_at := now \<rparr>))"

definition required_fields :: "string list" where
  "required_fields = [''text'', ''confidence'', ''processing_time'']"

text \<open>
  \<open>store_ocr_result\<close>. \<open>timestamp\<close> is \<open>datetime.utcnow().isoformat()\<close> of the first
  reading of the clock, \<open>now\<close> the second reading. The payload is assigned to
  \<open>ocr_result\<close> before the metadata entry is built, as in the source.
\<close>

definition store_ocr_result ::
  "string \<Rightarrow> datetime \<Rightarrow> pydict \<Rightarrow> document \<Rightarrow> (error + unit) \<times> document" where
  "store_ocr_result timestamp now ocr_data self =
     (if \<not> list_all (has_key ocr_data) required_fields then (Inl ValueError, self)
      else
        let self1 = self\<lparr> ocr_result := ocr_data \<rparr> in
        (case getitem ocr_data ''processing_time'' of
           Inl e \<Rightarrow> (Inl e, self1)
         | Inr duration \<Rightarrow>
             (case getitem ocr_data ''confidence'' of
                Inl e \<Rightarrow> (Inl e, self1)
              | Inr confidence \<Rightarrow>
                  (Inr (),
                   self1\<lparr> metadata :=
                            AList.update ''ocr_processing''
                              (PDict [(''timestamp'', PStr timestamp),
                                      (''duration'', duration),
                                      (''confidence'', confidence)])
                              (metadata self1),
                          updated_at := now \<rparr>))))"

text \<open>
  \<open>upload_to_storage\<close>. The S3 client is outside the program: \<open>put_object\<close> is its
  outcome, \<open>year\<close>, \<open>month\<close>, \<open>day\<close> the formatted readings of the clock.
\<close>

definition upload_to_storage ::
  "error option \<Rightarrow> string \<Rightarrow> string \<Rightarrow> string \<Rightarrow> datetime \<Rightarrow> document \<Rightarrow> (error + string) \<times> document" where
  "upload_to_storage put_object year month day now self =
     (let filename = doc_id self @ ''-'' @ file_name self;
          path = ''documents/'' @ year @ ''/'' @ month @ ''/'' @ day @ ''/'' @ filename
      in case put_object of
           Some e \<Rightarrow> (Inl e, self)
         | None \<Rightarrow> (Inr path, self\<lparr> storage_path := Some path, updated_at := now \<rparr>))"

text \<open>
  The documents the service can hold: a new document, changed by the methods above and by
  the two attribute writes of the controller (\<open>document.file_size = ...\<close> and
  \<open>document.metadata['extracted_fields'] = ...\<close>). A stored payload is the document's own
  copy; no caller in the repository changes a payload after storing it.
\<close>

inductive reachable :: "document \<Rightarrow> bool" where
  created: "reachable (new_document uuid4 t app_id fname ftype mtype fsize creator)"
| status_updated:
    "reachable d \<Longrightarrow> reachable (snd (update_processing_status now status result_data d))"
| classified:
    "reachable d \<Longrightarrow> reachable (snd (set_classification now new_type cm d))"
| ocr_stored:
    "reachable d \<Longrightarrow> reachable (snd (store_ocr_result timestamp now ocr_data d))"
| uploaded:
    "reachable d \<Longrightarrow> reachable (snd (upload_to_storage put_object y m dd now d))"
| size_written:
    "reachable d \<Longrightarrow> reachable (d\<lparr> file_size := n \<rparr>)"
| metadata_written:
    "reachable d \<Longrightarrow> reachable (d\<lparr> metadata := AList.update k v (metadata d) \<rparr>)"

section \<open>Python strings and lists\<close>

text \<open>
  The character classes of Python's \<open>str\<close> on the code points below 256.
\<close>

definition isdigit :: "char \<Rightarrow> bool" where
  "isdigit c = (let n = (of_char c :: nat) in (48 \<le> n \<and> n \<le> 57) \<or> n = 178 \<or> n = 179 \<or> n = 185)"

definition isalnum :: "char \<Rightarrow> bool" where
  "isalnum c = (let n = (of_char c :: nat) in
     (48 \<le> n \<and> n \<le> 57) \<or> (65 \<le> n \<and> n \<le> 90) \<or> (97 \<le> n \<and> n \<le> 122) \<or>
     n = 170 \<or> n = 178 \<or> n = 179 \<or> n = 181 \<or> n = 185 \<or> n = 186 \<or>
     n = 188 \<or> n = 189 \<or> n = 190 \<or>
     (192 \<le> n \<and> n \<le> 214) \<or> (216 \<le> n \<and> n \<le> 246) \<or> (248 \<le> n \<and> n \<le> 255))"

definition isspace :: "char \<Rightarrow> bool" where
  "isspace c = (let n = (of_char c :: nat) in
     (9 \<le> n \<and> n \<le> 13) \<or> (28 \<le> n \<and> n \<le> 32) \<or> n = 133 \<or> n = 160)"

definition lower_char :: "char \<Rightarrow> char" where
  "lower_char c = (let n = (of_char c :: nat) in
     if (65 \<le> n \<and> n \<le> 90) \<or> (192 \<le> n \<and> n \<le> 222 \<and> n \<noteq> 215) then char_of (n + 32) else c)"

text \<open>\<open>sep.join(xs)\<close>\<close>

fun join :: "string \<Rightarrow> string list \<Rightarrow> string" where
  "join sep [] = []"
| "join sep [x] = x"
| "join sep (x # y # ys) = x @ sep @ join sep (y # ys)"

text \<open>\<open>s.split()\<close>: the maximal runs of characters that are not whitespace\<close>

fun split_ws :: "string \<Rightarrow> string \<Rightarrow> string list" where
  "split_ws [] w = (if w = [] then [] else [w])"
| "split_ws (c # cs) w =
     (if isspace c then (if w = [] then split_ws cs [] else w # split_ws cs [])
      else split_ws cs (w @ [c]))"

text \<open>\<open>s.strip()\<close>\<close>

definition strip :: "string \<Rightarrow> string" where
  "strip s = rev (dropWhile isspace (rev (dropWhile isspace s)))"

text \<open>\<open>s.replace(a, b)\<close> for one-character \<open>a\<close> and \<open>b\<close>\<close>

definition replace_char :: "char \<Rightarrow> char \<Rightarrow> string \<Rightarrow> string" where
  "replace_char a b s = map (\<lambda>c. if c = a then b else c) s"

text \<open>\<open>s.startswith(p)\<close>\<close>

definition startswith :: "string \<Rightarrow> string \<Rightarrow> bool" where
  "startswith s p = (take (length p) s = p)"

text \<open>\<open>xs[i]\<close> for an index that is not negative, raising IndexError out of range\<close>

definition list_get :: "'a list \<Rightarrow> nat \<Rightarrow> error + 'a" where
  "list_get xs i = (if i < length xs then Inr (xs ! i) else Inl IndexError)"

text \<open>
  \<open>np.argmax\<close> of a flattened array: the first position of the largest entry; an empty
  array raises ValueError.
\<close>

fun argmax_from :: "real list \<Rightarrow> nat \<Rightarrow> nat \<Rightarrow> real \<Rightarrow> nat" where
  "argmax_from [] i best m = best"
| "argmax_from (x # xs) i best m =
     (if x > m then argmax_from xs (i + 1) i x else argmax_from xs (i + 1) best m)"

definition argmax :: "real list \<Rightarrow> error + nat" where
  "argmax xs = (case xs of [] \<Rightarrow> Inl ValueError | x # rest \<Rightarrow> Inr (argmax_from rest 1 0 x))"

section \<open>services/classification\_service.py\<close>

definition CONFIDENCE_THRESHOLD :: real where
  "CONFIDENCE_THRESHOLD = 85 / 100"

text \<open>
  \<open>extract_text\<close>. The storage client and the file readers are outside the program:
  \<open>download\<close> is the failure of the download, if any, \<open>detected\<close> the type that
  \<open>magic.from_file\<close> reports, \<open>pages\<close> the text of each page of the PDF.
\<close>

definition extract_text :: "error option \<Rightarrow> string \<Rightarrow> string list \<Rightarrow> error + string" where
  "extract_text download detected pages =
     (case download of
        Some e \<Rightarrow> Inl e
      | None \<Rightarrow>
          if detected = ''application/pdf'' then Inr (join '' '' pages)
          else if startswith detected ''image/'' then Inl ValueError
          else Inl ValueError)"

definition preprocess_text :: "string \<Rightarrow> string" where
  "preprocess_text text =
     (let text1 = map lower_char text;
          text2 = join '' '' (split_ws text1 []);
          text3 = replace_char (CHR 0x0A) (CHR '' '') text2;
          text4 = replace_char (CHR 0x09) (CHR '' '') text3
      in filter (\<lambda>char. isalnum char \<or> isspace char) text4)"

text \<open>
  Lines 113 to 115 of \<open>classify_document\<close>: the position of the largest probability,
  the entry of the first row at that position, and the label at that position.
\<close>

definition predict_type :: "real list list \<Rightarrow> error + (string \<times> real)" where
  "predict_type prediction_probs =
     (case argmax (concat prediction_probs) of
        Inl e \<Rightarrow> Inl e
      | Inr predicted_class_idx \<Rightarrow>
          (case list_get prediction_probs 0 of
             Inl e \<Rightarrow> Inl e
           | Inr row \<Rightarrow>
               (case list_get row predicted_class_idx of
                  Inl e \<Rightarrow> Inl e
                | Inr confidence_score \<Rightarrow>
                    (case list_get DOCUMENT_TYPES predicted_class_idx of
                       Inl e \<Rightarrow> Inl e
                     | Inr predicted_type \<Rightarrow> Inr (predicted_type, confidence_score)))))"

text \<open>
  \<open>classify_document\<close>. The vectorizer and the probability model are pretrained artifacts
  outside the program: \<open>predict_proba\<close> is \<open>vectorizer.transform\<close> followed by
  \<open>model.predict_proba\<close> on the processed text, an array of one row per sample or a
  failure.
\<close>

definition classify_document ::
  "datetime \<Rightarrow> (string \<Rightarrow> error + real list list) \<Rightarrow> error option \<Rightarrow> string \<Rightarrow> string list \<Rightarrow>
   document \<Rightarrow> (error + (string \<times> real)) \<times> document" where
  "classify_document now predict_proba download detected pages document =
     (case extract_text download detected pages of
        Inl e \<Rightarrow> (Inl e, document)
      | Inr text \<Rightarrow>
          if text = [] then (Inl ValueError, document)
          else
            let processed_text = preprocess_text text in
            (case predict_proba processed_text of
               Inl e \<Rightarrow> (Inl e, document)
             | Inr prediction_probs \<Rightarrow>
                 (case predict_type prediction_probs of
                    Inl e \<Rightarrow> (Inl e, document)
                  | Inr (predicted_type, confidence_score) \<Rightarrow>
                      if confidence_score \<ge> CONFIDENCE_THRESHOLD then
                        (case set_classification now predicted_type
                                [(''confidence'', PNum confidence_score),
                                 (''processing_time'', PStr ''real-time''),
                                 (''method'', PStr ''machine_learning''),
                                 (''model_version'', PStr ''1.0'')]
                                document of
                           (Inl e, document1) \<Rightarrow> (Inl e, document1)
                         | (Inr u, document1) \<Rightarrow>
                             (Inr (predicted_type, confidence_score), document1))
                      else (Inr (predicted_type, confidence_score), document))))"


definition sample_low_proba :: "string \<Rightarrow> error + real list list" where
  "sample_low_proba processed_text = Inr [[75 / 100, 0, 0, 0, 0]]"

definition sample_document :: document where
  "sample_document =
     new_document ''u1'' 3 ''test-app-789'' ''test.pdf'' ''pdf'' ''application/pdf'' 100 ''test-user''"

section \<open>services/ocr\_service.py\<close>

text \<open>
  The image library, the PDF converter, the recognition engine and the clock are outside
  the program; what they deliver is an argument of the model. An image is represented by
  what the engine returns for it: the lines of its word-level report
  (\<open>ocr_result.splitlines()\<close>), or the engine's failure.

  The names bound at module level are those the module imports or defines. The bodies of
  \<open>process_document\<close> and \<open>preprocess_image\<close> also read \<open>time\<close>, \<open>io\<close> and \<open>cv2\<close>,
  which the module never imports: reading a name that is not bound raises NameError.
\<close>

definition module_globals :: "string list" where
  "module_globals =
     [''os'', ''Path'', ''tempfile'', ''List'', ''Tuple'', ''Dict'', ''pytesseract'', ''Image'',
      ''ImageEnhance'', ''np'', ''convert_from_bytes'', ''Config'', ''get_logger'', ''Document'',
      ''logger'', ''SUPPORTED_IMAGE_FORMATS'', ''SUPPORTED_PDF_VERSION'', ''preprocess_image'',
      ''convert_pdf_to_images'', ''OCRProcessor'']"

definition lookup_global :: "string \<Rightarrow> error + unit" where
  "lookup_global name = (if name \<in> set module_globals then Inr () else Inl NameError)"

definition SUPPORTED_IMAGE_FORMATS :: "string list" where
  "SUPPORTED_IMAGE_FORMATS = [''PNG'', ''JPEG'', ''TIFF'', ''BMP'']"

type_synonym image = "error + string list"

record ocr_settings =
  language :: string
  dpi :: real
  psm :: real
  oem :: real

record externals =
  pdf_images :: "error + image list"
  opened_image :: "error + (string \<times> image)"
  start_time :: real
  end_time :: real
  stamp :: string
  stored_at :: datetime

text \<open>\<open>s.split(sep)\<close> for a one-character separator\<close>

fun str_split :: "char \<Rightarrow> string \<Rightarrow> string list" where
  "str_split sep [] = [[]]"
| "str_split sep (c # cs) =
     (if c = sep then [] # str_split sep cs
      else (case str_split sep cs of [] \<Rightarrow> [[c]] | p # ps \<Rightarrow> (c # p) # ps))"

text \<open>\<open>sum(xs) / len(xs)\<close>, used only on a list that is not empty\<close>

definition mean :: "real list \<Rightarrow> real" where
  "mean xs = sum_list xs / real (length xs)"

text \<open>
  \<open>round(x, n)\<close>: the nearest multiple of \<open>10 ^ -n\<close>, a tie going to the even one.
\<close>

definition py_round :: "real \<Rightarrow> nat \<Rightarrow> real" where
  "py_round x n =
     (let y = x * 10 ^ n; f = \<lfloor>y\<rfloor>; d = y - of_int f
      in (if d < 1 / 2 then of_int f
          else if d > 1 / 2 then of_int (f + 1)
          else if even f then of_int f else of_int (f + 1)) / 10 ^ n)"

text \<open>
  The inner loop of \<open>process_document\<close> over the lines of one report. \<open>py_float\<close> is
  Python's \<open>float\<close> on a string, \<open>None\<close> where it raises ValueError; infinities and
  not-a-number are not modelled.
\<close>

fun page_loop ::
  "(string \<Rightarrow> real option) \<Rightarrow> string list \<Rightarrow> string list \<Rightarrow> real list \<Rightarrow>
   error + (string list \<times> real list)" where
  "page_loop py_float [] page_text page_confidence = Inr (page_text, page_confidence)"
| "page_loop py_float (line # lines) page_text page_confidence =
     (let parts = str_split (CHR 0x09) line in
      if length parts > 11 \<and> strip (parts ! 11) \<noteq> [] then
        (case (if parts ! 10 \<noteq> ''-1'' then py_float (parts ! 10) else Some 0) of
           None \<Rightarrow> Inl ValueError
         | Some conf \<Rightarrow>
             if conf > 0
             then page_loop py_float lines (page_text @ [parts ! 11]) (page_confidence @ [conf])
             else page_loop py_float lines page_text page_confidence)
      else page_loop py_float lines page_text page_confidence)"

text \<open>
  The body of the loop over the images. The state is \<open>results\<close>, \<open>confidence_scores\<close>
  and the local \<open>avg_confidence\<close>, which is unbound (\<open>None\<close>) until a page with a
  surviving word has been seen; the log line after the \<open>if\<close> reads it on every page.
\<close>

type_synonym page_state = "string list \<times> real list \<times> real option"

definition page_step ::
  "(string \<Rightarrow> real option) \<Rightarrow> string list \<Rightarrow> page_state \<Rightarrow> error + page_state" where
  "page_step py_float ocr_lines st =
     (case st of (results, confidence_scores, avg_confidence) \<Rightarrow>
        (case page_loop py_float (drop 1 ocr_lines) [] [] of
           Inl e \<Rightarrow> Inl e
         | Inr (page_text, page_confidence) \<Rightarrow>
             let st1 =
                   (if page_confidence \<noteq> [] then
                      (results @ [join [CHR 0x0A] page_text],
                       confidence_scores @ [mean page_confidence],
                       Some (mean page_confidence))
                    else (results, confidence_scores, avg_confidence))
             in (case snd (snd st1) of
                   None \<Rightarrow> Inl UnboundLocalError
                 | Some logged \<Rightarrow> Inr st1)))"

text \<open>
  \<open>preprocess_image\<close>: the transforms of the image library, then the first read of
  \<open>cv2\<close>. The processed image is represented by the same report.
\<close>

definition preprocess_image :: "image \<Rightarrow> error + image" where
  "preprocess_image img =
     (case lookup_global ''cv2'' of
        Inl e \<Rightarrow> Inl e
      | Inr u \<Rightarrow> Inr img)"

fun image_loop ::
  "(string \<Rightarrow> real option) \<Rightarrow> image list \<Rightarrow> page_state \<Rightarrow> error + page_state" where
  "image_loop py_float [] st = Inr st"
| "image_loop py_float (img # rest) st =
     (case preprocess_image img of
        Inl e \<Rightarrow> Inl e
      | Inr processed_image \<Rightarrow>
          (case processed_image of
             Inl e \<Rightarrow> Inl e
           | Inr ocr_lines \<Rightarrow>
               (case page_step py_float ocr_lines st of
                  Inl e \<Rightarrow> Inl e
                | Inr st1 \<Rightarrow> image_loop py_float rest st1)))"

definition images_to_process :: "document \<Rightarrow> externals \<Rightarrow> error + image list" where
  "images_to_process document ext =
     (if mime_type document = ''application/pdf'' then pdf_images ext
      else (case lookup_global ''io'' of
              Inl e \<Rightarrow> Inl e
            | Inr u \<Rightarrow>
                (case opened_image ext of
                   Inl e \<Rightarrow> Inl e
                 | Inr (format, img) \<Rightarrow>
                     if format \<notin> set SUPPORTED_IMAGE_FORMATS then Inl ValueError
                     else Inr [img])))"

text \<open>\<open>len(x)\<close>\<close>

definition py_len :: "pyval \<Rightarrow> error + nat" where
  "py_len x = (case x of PStr s \<Rightarrow> Inr (length s) | PDict d \<Rightarrow> Inr (length d) | _ \<Rightarrow> Inl TypeError)"

definition min_confidence :: real where "min_confidence = 99"
definition max_processing_time :: real where "max_processing_time = 300"
definition min_text_length :: nat where "min_text_length = 50"
definition max_error_rate :: real where "max_error_rate = 1 / 100"

text \<open>
  \<open>validate_results\<close>. The metrics are built in the order of the dictionary literal; the
  chain of \<open>and\<close> stops at the first comparison that is false.
\<close>

definition validate_results :: "pydict \<Rightarrow> error + (bool \<times> pydict)" where
  "validate_results ocr_results =
     (case getitem ocr_results ''confidence'' of
        Inl e \<Rightarrow> Inl e
      | Inr confidence \<Rightarrow>
     (case getitem ocr_results ''processing_time'' of
        Inl e \<Rightarrow> Inl e
      | Inr processing_time \<Rightarrow>
     (case getitem ocr_results ''text'' of
        Inl e \<Rightarrow> Inl e
      | Inr text \<Rightarrow>
     (case py_len text of
        Inl e \<Rightarrow> Inl e
      | Inr text_length \<Rightarrow>
     (case confidence of
        PNum c \<Rightarrow>
          let error_rate = 100 - c;
              metrics = [(''confidence'', confidence),
                         (''processing_time'', processing_time),
                         (''text_length'', PNum (real text_length)),
                         (''error_rate'', PNum error_rate)]
          in if \<not> c \<ge> min_confidence then Inr (False, metrics)
             else (case processing_time of
                     PNum t \<Rightarrow>
                       Inr (t \<le> max_processing_time \<and> text_length \<ge> min_text_length \<and>
                            error_rate \<le> max_error_rate, metrics)
                   | _ \<Rightarrow> Inl TypeError)
      | _ \<Rightarrow> Inl TypeError)))))"

text \<open>
  \<open>process_document\<close>. Its first statement reads \<open>time\<close>; the second read, after the
  loop, has the same outcome and is not repeated.
\<close>

definition process_document ::
  "(string \<Rightarrow> real option) \<Rightarrow> ocr_settings \<Rightarrow> externals \<Rightarrow> document \<Rightarrow>
   (error + pydict) \<times> document" where
  "process_document py_float settings ext document =
     (case lookup_global ''time'' of
        Inl e \<Rightarrow> (Inl e, document)
      | Inr u \<Rightarrow>
     (case images_to_process document ext of
        Inl e \<Rightarrow> (Inl e, document)
      | Inr images \<Rightarrow>
          (case image_loop py_float images ([], [], None) of
             Inl e \<Rightarrow> (Inl e, document)
           | Inr (results, confidence_scores, avg_confidence) \<Rightarrow>
               let processing_time = end_time ext - start_time ext;
                   overall_confidence =
                     (if confidence_scores \<noteq> [] then mean confidence_scores else 0);
                   ocr_results =
                     [(''text'', PStr (join [CHR 0x0A, CHR 0x0A] results)),
                      (''confidence'', PNum overall_confidence),
                      (''processing_time'', PNum processing_time),
                      (''pages_processed'', PNum (real (length images))),
                      (''metadata'',
                       PDict [(''dpi'', PNum (dpi settings)),
                              (''language'', PStr (language settings)),
                              (''psm'', PNum (psm settings)),
                              (''oem'', PNum (oem settings))])]
               in (case validate_results ocr_results of
                     Inl e \<Rightarrow> (Inl e, document)
                   | Inr (validation_status, metrics) \<Rightarrow>
                       (case store_ocr_result (stamp ext) (stored_at ext) ocr_results document of
                          (Inl e, document1) \<Rightarrow> (Inl e, document1)
                        | (Inr u1, document1) \<Rightarrow> (Inr ocr_results, document1))))))"

text \<open>
  \<open>_calculate_field_confidence\<close> over a multiplication and a rounding to 2 decimal
  places, so that the same text can be read with exact or with double-precision
  arithmetic.
\<close>

definition field_confidence_with ::
  "(real \<Rightarrow> real \<Rightarrow> real) \<Rightarrow> (real \<Rightarrow> real) \<Rightarrow> string \<Rightarrow> pyval \<Rightarrow> error + real" where
  "field_confidence_with mul rnd val base_confidence =
     (case base_confidence of
        PNum b \<Rightarrow>
          let confidence = b;
              confidence = (if length val < 3 then mul confidence (9 / 10) else confidence);
              confidence = (if list_ex isdigit val then mul confidence (95 / 100) else confidence);
              confidence = (if list_ex (\<lambda>c. \<not> isalnum c) val then mul confidence (98 / 100)
                            else confidence)
          in Inr (rnd confidence)
      | _ \<Rightarrow> Inl TypeError)"

text \<open>
  Double precision. \<open>expo n x\<close> is the binary exponent of a positive \<open>x\<close>, found in at
  most \<open>n\<close> steps; \<open>round_half_even\<close> is the nearest integer, a tie going to the even
  one; \<open>fl x\<close> is the double nearest to \<open>x\<close>, subnormal numbers included and overflow
  left out. A float literal and a float product are the nearest doubles of the exact
  values, and \<open>round(x, 2)\<close> is the double nearest to the exact value of \<open>x\<close> rounded
  half-even to 2 decimal places.
\<close>

fun expo :: "nat \<Rightarrow> real \<Rightarrow> int" where
  "expo 0 x = 0"
| "expo (Suc n) x =
     (if 2 \<le> x then expo n (x / 2) + 1 else if x < 1 then expo n (x * 2) - 1 else 0)"

definition round_half_even :: "real \<Rightarrow> int" where
  "round_half_even y =
     (let f = \<lfloor>y\<rfloor>; d = y - of_int f
      in if d < 1 / 2 then f else if d > 1 / 2 then f + 1 else if even f then f else f + 1)"

definition fl :: "real \<Rightarrow> real" where
  "fl x =
     (if x = 0 then 0
      else let e = max (expo 1100 \<bar>x\<bar>) (- 1022);
               ulp = (if e \<ge> 52 then 2 ^ nat (e - 52) else 1 / 2 ^ nat (52 - e))
           in sgn x * of_int (round_half_even (\<bar>x\<bar> / ulp)) * ulp)"

definition float_mul :: "real \<Rightarrow> real \<Rightarrow> real" where
  "float_mul x literal = fl (x * fl literal)"

definition float_round2 :: "real \<Rightarrow> real" where
  "float_round2 x = fl (py_round x 2)"

definition calculate_field_confidence_float :: "string \<Rightarrow> pyval \<Rightarrow> error + real" where
  "calculate_field_confidence_float = field_confidence_with float_mul float_round2"

text \<open>
  The same function with exact products and exact rounding, used for the bound on the
  confidence that \<open>extract_fields\<close> emits.
\<close>

definition calculate_field_confidence :: "string \<Rightarrow> pyval \<Rightarrow> error + real" where
  "calculate_field_confidence val base_confidence =
     (case base_confidence of
        PNum b \<Rightarrow>
          let confidence = b;
              confidence = (if length val < 3 then confidence * (9 / 10) else confidence);
              confidence = (if list_ex isdigit val then confidence * (95 / 100) else confidence);
              confidence = (if list_ex (\<lambda>c. \<not> isalnum c) val then confidence * (98 / 100)
                            else confidence)
          in Inr (py_round confidence 2)
      | _ \<Rightarrow> Inl TypeError)"




section \<open>The specification's readings and sample inputs\<close>

text \<open>
  The field confidence as the specification words it, over the same multiplication and
  rounding: the third penalty applies when the value has a character that is neither
  alphanumeric nor a space.
\<close>

definition claimed_field_confidence_with ::
  "(real \<Rightarrow> real \<Rightarrow> real) \<Rightarrow> (real \<Rightarrow> real) \<Rightarrow> string \<Rightarrow> real \<Rightarrow> real" where
  "claimed_field_confidence_with mul rnd val c =
     (let x = c;
          x = (if length val < 3 then mul x (9 / 10) else x);
          x = (if list_ex isdigit val then mul x (95 / 100) else x);
          x = (if list_ex (\<lambda>ch. \<not> isalnum ch \<and> ch \<noteq> CHR '' '') val then mul x (98 / 100) else x)
      in rnd x)"

text \<open>The multipliers that apply to a value, in the order of the source\<close>

definition penalties :: "string \<Rightarrow> real list" where
  "penalties val =
     (if length val < 3 then [9 / 10] else []) @
     (if \<exists>ch \<in> set val. isdigit ch then [95 / 100] else []) @
     (if \<exists>ch \<in> set val. \<not> isalnum ch then [98 / 100] else [])"


text \<open>
  A sample report: a header line and two word rows of 12 tab-separated columns, with
  \<open>float\<close> on the confidence cells that occur in it; and a PNG upload whose single image
  has that report.
\<close>

definition sample_header :: string where
  "sample_header =
     join [CHR 0x09] [''level'', ''page_num'', ''block_num'', ''par_num'', ''line_num'', ''word_num'',
                      ''left'', ''top'', ''width'', ''height'', ''conf'', ''text'']"

definition sample_row :: "string \<Rightarrow> string \<Rightarrow> string" where
  "sample_row conf token =
     join [CHR 0x09] [''5'', ''1'', ''1'', ''1'', ''1'', ''1'', ''10'', ''10'', ''30'', ''12'', conf, token]"

definition sample_float :: "string \<Rightarrow> real option" where
  "sample_float s = (if s = ''96'' then Some 96 else if s = ''94'' then Some 94 else None)"

definition sample_settings :: ocr_settings where
  "sample_settings = \<lparr> language = ''eng'', dpi = 300, psm = 3, oem = 3 \<rparr>"

definition sample_page_two_words :: "string list" where
  "sample_page_two_words = [sample_header, sample_row ''96'' ''Acme'', sample_row ''94'' ''Corp'']"

definition sample_image_document :: document where
  "sample_image_document =
     new_document ''u2'' 3 ''test-app-001'' ''test.png'' ''png'' ''image/png'' 2048 ''test-user''"

definition sample_image_externals :: externals where
  "sample_image_externals =
     \<lparr> pdf_images = Inl ExternalError, opened_image = Inr (''PNG'', Inr sample_page_two_words),
       start_time = 100, end_time = 104, stamp = ''2024-01-01T00:00:00'', stored_at = 9 \<rparr>"

section \<open>Dictionary lemmas\<close>

lemma map_of_dict_update_rev:
  "map_of (dict_update d other) = map_of d ++ map_of (rev other)"
proof (induction other arbitrary: d)
  case Nil
  show ?case by (simp add: dict_update_def)
next
  case (Cons p other)
  obtain k v where p: "p = (k, v)" by (cases p)
  have "map_of (dict_update d (p # other)) = map_of (dict_update (AList.update k v d) other)"
    by (simp add: dict_update_def p)
  also have "\<dots> = map_of (AList.update k v d) ++ map_of (rev other)"
    by (rule Cons.IH)
  also have "\<dots> = map_of d ++ map_of (rev (p # other))"
    by (simp add: p update_conv' map_add_def fun_eq_iff split: option.splits)
  finally show ?case .
qed

lemma map_of_rev_distinct:
  assumes "distinct (map fst xs)"
  shows "map_of (rev xs) = map_of xs"
proof -
  have "distinct (map fst (rev xs))"
    using assms by (simp add: rev_map [symmetric])
  then show ?thesis
    using assms by (simp add: map_of_inject_set)
qed

lemma map_of_dict_update:
  assumes "distinct (map fst other)"
  shows "map_of (dict_update d other) = map_of d ++ map_of other"
  using assms by (simp add: map_of_dict_update_rev map_of_rev_distinct)

section \<open>The status state machine\<close>

text \<open>
  C7. A status outside PENDING, PROCESSING, COMPLETED, FAILED is refused with the
  ValueError that the specification calls a validation error, and the document is exactly
  the one passed in. A status inside the set is accepted: the status is stored, the
  result data are merged into the metadata (a key of the result data takes the new value,
  any other key keeps its old one), \<open>updated_at\<close> becomes the reading of the clock, which
  is not earlier than the old value when the clock has not gone back, and no other field
  changes.
\<close>

theorem update_processing_status_contract:
  "(status \<notin> {''PENDING'', ''PROCESSING'', ''COMPLETED'', ''FAILED''} \<longrightarrow>
      update_processing_status now status result_data d = (Inl ValueError, d)) \<and>
   (status \<in> {''PENDING'', ''PROCESSING'', ''COMPLETED'', ''FAILED''} \<longrightarrow>
      distinct (map fst result_data) \<longrightarrow>
      (\<exists>d'. update_processing_status now status result_data d = (Inr (), d') \<and>
            processing_status d' = status \<and>
            map_of (metadata d') = map_of (metadata d) ++ map_of result_data \<and>
            updated_at d' = now \<and>
            (updated_at d \<le> now \<longrightarrow> updated_at d \<le> updated_at d') \<and>
            d'\<lparr> processing_status := processing_status d, metadata := metadata d,
                updated_at := updated_at d \<rparr> = d))"
  by (auto simp: update_processing_status_def PROCESSING_STATUSES_def map_of_dict_update)

theorem update_processing_status_contract_witness:
  "update_processing_status 7 ''ARCHIVED'' [(''note'', PStr ''x'')]
     (new_document ''u1'' 3 ''app'' ''a.pdf'' ''pdf'' ''application/pdf'' 10 ''amy'')
   = (Inl ValueError, new_document ''u1'' 3 ''app'' ''a.pdf'' ''pdf'' ''application/pdf'' 10 ''amy'')
   \<and> (\<exists>d'. update_processing_status 7 ''PROCESSING'' [(''started_at'', PStr ''t0'')]
              (new_document ''u1'' 3 ''app'' ''a.pdf'' ''pdf'' ''application/pdf'' 10 ''amy'')
            = (Inr (), d') \<and>
            processing_status d' = ''PROCESSING'' \<and>
            map_of (metadata d') ''started_at'' = Some (PStr ''t0'') \<and>
            updated_at d' = 7)"
proof -
  let ?d = "new_document ''u1'' 3 ''app'' ''a.pdf'' ''pdf'' ''application/pdf'' 10 ''amy''"
  have bad: "''ARCHIVED'' \<notin> {''PENDING'', ''PROCESSING'', ''COMPLETED'', ''FAILED''}"
    by simp
  have good: "''PROCESSING'' \<in> {''PENDING'', ''PROCESSING'', ''COMPLETED'', ''FAILED''}"
    by simp
  have dist: "distinct (map fst [(''started_at'', PStr ''t0'')])"
    by simp
  from update_processing_status_contract [of "''ARCHIVED''" 7 "[(''note'', PStr ''x'')]" ?d] bad
  have 1: "update_processing_status 7 ''ARCHIVED'' [(''note'', PStr ''x'')] ?d = (Inl ValueError, ?d)"
    by blast
  from update_processing_status_contract
         [of "''PROCESSING''" 7 "[(''started_at'', PStr ''t0'')]" ?d] good dist
  obtain d' where 2:
    "update_processing_status 7 ''PROCESSING'' [(''started_at'', PStr ''t0'')] ?d = (Inr (), d')"
    "processing_status d' = ''PROCESSING''"
    "map_of (metadata d') = map_of (metadata ?d) ++ map_of [(''started_at'', PStr ''t0'')]"
    "updated_at d' = 7"
    by blast
  from 2(3) have "map_of (metadata d') ''started_at'' = Some (PStr ''t0'')"
    by simp
  with 1 2 show ?thesis by blast
qed

text \<open>
  C10. From a terminal status, COMPLETED or FAILED, every status of the fixed set is
  accepted and becomes the document's status: the method never looks at the current
  status.
\<close>

theorem terminal_status_not_enforced:
  "processing_status d \<in> {''COMPLETED'', ''FAILED''} \<Longrightarrow>
   status \<in> {''PENDING'', ''PROCESSING'', ''COMPLETED'', ''FAILED''} \<Longrightarrow>
   \<exists>d'. update_processing_status now status result_data d = (Inr (), d') \<and>
        processing_status d' = status"
  by (auto simp: update_processing_status_def PROCESSING_STATUSES_def)

theorem terminal_status_not_enforced_witness:
  "\<exists>d'. update_processing_status 9 ''PENDING'' []
          ((new_document ''u1'' 3 ''app'' ''a.pdf'' ''pdf'' ''application/pdf'' 10 ''amy'')
             \<lparr> processing_status := ''COMPLETED'' \<rparr>)
        = (Inr (), d') \<and> processing_status d' = ''PENDING''"
  using terminal_status_not_enforced
          [of "(new_document ''u1'' 3 ''app'' ''a.pdf'' ''pdf'' ''application/pdf'' 10 ''amy'')
                 \<lparr> processing_status := ''COMPLETED'' \<rparr>" "''PENDING''" 9 "[]"]
  by simp

section \<open>Stored OCR payloads\<close>

lemma store_ocr_result_incomplete:
  assumes "\<not> list_all (has_key ocr_data) required_fields"
  shows "store_ocr_result timestamp now ocr_data d = (Inl ValueError, d)"
  using assms by (simp add: store_ocr_result_def)

lemma store_ocr_result_ocr_result:
  "ocr_result (snd (store_ocr_result timestamp now ocr_data d)) =
     (if list_all (has_key ocr_data) required_fields then ocr_data else ocr_result d)"
  by (simp add: store_ocr_result_def Let_def split: sum.splits)

lemma reachable_ocr_result:
  assumes "reachable d"
  shows "ocr_result d = [] \<or> list_all (has_key (ocr_result d)) required_fields"
  using assms
proof (induction rule: reachable.induct)
  case (created uuid4 t app_id fname ftype mtype fsize creator)
  show ?case by (simp add: new_document_def)
next
  case (status_updated d now status result_data)
  then show ?case by (simp add: update_processing_status_def)
next
  case (classified d now new_type cm)
  then show ?case by (simp add: set_classification_def)
next
  case (ocr_stored d timestamp now ocr_data)
  then show ?case by (simp add: store_ocr_result_ocr_result)
next
  case (uploaded d put_object y m dd now)
  then show ?case by (simp add: upload_to_storage_def Let_def split: option.splits)
next
  case (size_written d n)
  then show ?case by simp
next
  case (metadata_written d k v)
  then show ?case by simp
qed

text \<open>
  C8. A payload that lacks one of the keys text, confidence, processing_time is refused
  with the ValueError that the specification calls a validation error, and the document
  is exactly the one passed in, so its status and its stored OCR result are the old ones.
  Hence on every document the service can hold, an OCR result that is present (not the
  empty dictionary a new document starts with) has all three keys.
\<close>

theorem store_ocr_result_requires_triple:
  "((\<exists>k \<in> {''text'', ''confidence'', ''processing_time''}. map_of ocr_data k = None) \<longrightarrow>
      store_ocr_result timestamp now ocr_data d = (Inl ValueError, d)) \<and>
   (reachable r \<longrightarrow> ocr_result r \<noteq> [] \<longrightarrow>
      (\<forall>k \<in> {''text'', ''confidence'', ''processing_time''}. map_of (ocr_result r) k \<noteq> None))"
proof (intro conjI impI)
  assume "\<exists>k \<in> {''text'', ''confidence'', ''processing_time''}. map_of ocr_data k = None"
  then have "\<not> list_all (has_key ocr_data) required_fields"
    by (auto simp: required_fields_def has_key_def)
  then show "store_ocr_result timestamp now ocr_data d = (Inl ValueError, d)"
    by (rule store_ocr_result_incomplete)
next
  assume "reachable r" and "ocr_result r \<noteq> []"
  then have "list_all (has_key (ocr_result r)) required_fields"
    using reachable_ocr_result by blast
  then show "\<forall>k \<in> {''text'', ''confidence'', ''processing_time''}. map_of (ocr_result r) k \<noteq> None"
    by (simp add: required_fields_def has_key_def)
qed

theorem store_ocr_result_requires_triple_witness:
  "store_ocr_result ''t1'' 8 [(''text'', PStr ''abc''), (''processing_time'', PNum 2)]
     (new_document ''u1'' 3 ''app'' ''a.pdf'' ''pdf'' ''application/pdf'' 10 ''amy'')
   = (Inl ValueError, new_document ''u1'' 3 ''app'' ''a.pdf'' ''pdf'' ''application/pdf'' 10 ''amy'')
   \<and> ocr_result (snd (store_ocr_result ''t1'' 8
          [(''text'', PStr ''abc''), (''confidence'', PNum 97), (''processing_time'', PNum 2)]
          (new_document ''u1'' 3 ''app'' ''a.pdf'' ''pdf'' ''application/pdf'' 10 ''amy''))) \<noteq> []
   \<and> map_of (ocr_result (snd (store_ocr_result ''t1'' 8
          [(''text'', PStr ''abc''), (''confidence'', PNum 97), (''processing_time'', PNum 2)]
          (new_document ''u1'' 3 ''app'' ''a.pdf'' ''pdf'' ''application/pdf'' 10 ''amy''))))
        ''confidence'' \<noteq> None"
proof -
  let ?d = "new_document ''u1'' 3 ''app'' ''a.pdf'' ''pdf'' ''application/pdf'' 10 ''amy''"
  let ?bad = "[(''text'', PStr ''abc''), (''processing_time'', PNum 2)]"
  let ?good = "[(''text'', PStr ''abc''), (''confidence'', PNum 97), (''processing_time'', PNum 2)]"
  let ?r = "snd (store_ocr_result ''t1'' 8 ?good ?d)"
  have missing: "\<exists>k \<in> {''text'', ''confidence'', ''processing_time''}. map_of ?bad k = None"
    by simp
  have reach: "reachable ?r"
    by (rule reachable.ocr_stored) (rule reachable.created)
  have present: "ocr_result ?r \<noteq> []"
    by (simp add: store_ocr_result_def required_fields_def has_key_def getitem_def)
  from store_ocr_result_requires_triple [of ?bad "''t1''" 8 ?d ?r] missing reach present
  show ?thesis by blast
qed

section \<open>The classifier\<close>

lemma argmax_from_bound:
  "best < i + length xs \<Longrightarrow> argmax_from xs i best m < i + length xs"
  by (induction xs i best m rule: argmax_from.induct) auto

lemma argmax_less_length:
  assumes "argmax xs = Inr i"
  shows "i < length xs"
proof (cases xs)
  case Nil
  with assms show ?thesis by (simp add: argmax_def)
next
  case (Cons x rest)
  have "argmax_from rest 1 0 x < 1 + length rest"
    by (rule argmax_from_bound) simp
  with assms Cons show ?thesis by (auto simp: argmax_def)
qed

lemma list_get_Inr:
  "list_get xs i = Inr x \<longleftrightarrow> i < length xs \<and> x = xs ! i"
  by (auto simp: list_get_def)

lemma predict_type_Inr:
  assumes "predict_type probs = Inr (label, conf)"
  obtains idx row where
    "argmax (concat probs) = Inr idx" "probs \<noteq> []" "row = hd probs"
    "idx < length row" "conf = row ! idx"
    "idx < length DOCUMENT_TYPES" "label = DOCUMENT_TYPES ! idx"
proof -
  from assms obtain idx row where
    a: "argmax (concat probs) = Inr idx" and
    r: "list_get probs 0 = Inr row" and
    c: "list_get row idx = Inr conf" and
    l: "list_get DOCUMENT_TYPES idx = Inr label"
    by (auto simp: predict_type_def split: sum.splits)
  from r have "probs \<noteq> []" "row = hd probs"
    by (auto simp: list_get_Inr hd_conv_nth)
  with a c l that show ?thesis
    by (auto simp: list_get_Inr)
qed



lemma classify_document_Inr:
  assumes "classify_document now predict_proba download detected pages d = (Inr (label, conf), d')"
  obtains body probs where
    "extract_text download detected pages = Inr body" "body \<noteq> []"
    "predict_proba (preprocess_text body) = Inr probs"
    "predict_type probs = Inr (label, conf)"
  using assms
  by (auto simp: classify_document_def Let_def split: sum.splits if_splits prod.splits)



text \<open>
  C9. When the call returns and the model's array holds probabilities (every entry between
  0 and 1, the contract of the pretrained model), the returned confidence is between 0
  and 1, the returned label is one of the five document types, and the position that
  selected the label is inside the label list: a position outside it raises IndexError
  instead of returning.
\<close>

theorem classify_document_range:
  assumes "classify_document now predict_proba download detected pages d = (Inr (label, conf), d')"
    and "\<forall>t probs. predict_proba t = Inr probs \<longrightarrow> (\<forall>row \<in> set probs. \<forall>p \<in> set row. 0 \<le> p \<and> p \<le> 1)"
  shows "0 \<le> conf \<and> conf \<le> 1 \<and>
         label \<in> {''ISO_APPLICATION'', ''BANK_STATEMENT'', ''VOIDED_CHECK'', ''BUSINESS_LICENSE'',
                  ''TAX_RETURN''} \<and>
         (\<exists>text probs idx. extract_text download detected pages = Inr text \<and>
                predict_proba (preprocess_text text) = Inr probs \<and>
                argmax (concat probs) = Inr idx \<and>
                idx < length DOCUMENT_TYPES \<and> label = DOCUMENT_TYPES ! idx)"
proof -
  from assms(1) obtain body probs where
    t: "extract_text download detected pages = Inr body" and
    p: "predict_proba (preprocess_text body) = Inr probs" and
    pt: "predict_type probs = Inr (label, conf)"
    by (rule classify_document_Inr)
  from pt obtain idx row where
    a: "argmax (concat probs) = Inr idx" and ne: "probs \<noteq> []" and row: "row = hd probs" and
    i: "idx < length row" and c: "conf = row ! idx" and
    il: "idx < length DOCUMENT_TYPES" and l: "label = DOCUMENT_TYPES ! idx"
    by (rule predict_type_Inr)
  from ne row have "row \<in> set probs" by simp
  moreover from i c have "conf \<in> set row" by simp
  ultimately have "0 \<le> conf \<and> conf \<le> 1"
    using assms(2) p by blast
  moreover from il l have "label \<in> set DOCUMENT_TYPES" by simp
  then have "label \<in> {''ISO_APPLICATION'', ''BANK_STATEMENT'', ''VOIDED_CHECK'',
                        ''BUSINESS_LICENSE'', ''TAX_RETURN''}"
    by (simp add: DOCUMENT_TYPES_def)
  ultimately show ?thesis
    using t p a il l by blast
qed

theorem classify_document_range_witness:
  "(0::real) \<le> 75 / 100 \<and> (75 / 100 :: real) \<le> 1 \<and>
   ''ISO_APPLICATION'' \<in> {''ISO_APPLICATION'', ''BANK_STATEMENT'', ''VOIDED_CHECK'',
                           ''BUSINESS_LICENSE'', ''TAX_RETURN''} \<and>
   classify_document 5 sample_low_proba None ''application/pdf'' [''Test content'']
     sample_document = (Inr (''ISO_APPLICATION'', 75 / 100), sample_document)"
proof -
  have run: "classify_document 5 sample_low_proba None ''application/pdf'' [''Test content'']
     sample_document = (Inr (''ISO_APPLICATION'', 75 / 100), sample_document)"
    by (simp add: classify_document_def extract_text_def sample_low_proba_def predict_type_def
        argmax_def list_get_def DOCUMENT_TYPES_def CONFIDENCE_THRESHOLD_def)
  have contract: "\<forall>t probs. sample_low_proba t = Inr probs \<longrightarrow>
      (\<forall>row \<in> set probs. \<forall>p \<in> set row. 0 \<le> p \<and> p \<le> 1)"
    by (auto simp: sample_low_proba_def)
  from classify_document_range [where predict_proba = sample_low_proba, OF run contract] run
  show ?thesis
    by blast
qed

section \<open>The result validator\<close>

lemma validate_results_numeric:
  assumes "map_of ocr_results ''confidence'' = Some (PNum c)"
    and "map_of ocr_results ''processing_time'' = Some (PNum t)"
    and "map_of ocr_results ''text'' = Some (PStr s)"
  shows "validate_results ocr_results =
     Inr (c \<ge> 99 \<and> t \<le> 300 \<and> length s \<ge> 50 \<and> 100 - c \<le> 1 / 100,
          [(''confidence'', PNum c), (''processing_time'', PNum t),
           (''text_length'', PNum (real (length s))), (''error_rate'', PNum (100 - c))])"
  using assms
  by (simp add: validate_results_def getitem_def py_len_def min_confidence_def
      max_processing_time_def min_text_length_def max_error_rate_def Let_def)

text \<open>
  C1. The validator compares the error rate \<open>100 - confidence\<close>, a percentage, with
  0.01. A result with confidence 99.5, processing time 10 seconds and a text of 50
  characters meets the four conditions of the claim (99.5 is at least 99.0, 10 is at most
  300, 50 is at least 50, and the error rate 0.5 is at most 1.0) and is rejected.
\<close>

theorem validate_results_rejects_half_percent:
  "validate_results
     [(''text'', PStr (replicate 50 (CHR ''a''))), (''confidence'', PNum (995 / 10)),
      (''processing_time'', PNum 10)] =
   Inr (False, [(''confidence'', PNum (995 / 10)), (''processing_time'', PNum 10),
                (''text_length'', PNum 50), (''error_rate'', PNum (1 / 2))]) \<and>
   (995 / 10 :: real) \<ge> 99 \<and> (10 :: real) \<le> 300 \<and>
   length (replicate 50 (CHR ''a'')) \<ge> 50 \<and> 100 - (995 / 10 :: real) \<le> 1"
  by (simp add: validate_results_def getitem_def py_len_def min_confidence_def
      max_processing_time_def min_text_length_def max_error_rate_def)

section \<open>Field confidence\<close>




lemma calculate_field_confidence_exact:
  "calculate_field_confidence v b = field_confidence_with (*) (\<lambda>x. py_round x 2) v b"
  by (simp add: calculate_field_confidence_def field_confidence_with_def)

text \<open>
  C4, as the code has it. For every multiplication and rounding, double precision
  included, the field confidence is the base confidence multiplied, in sequence, by 0.9
  when the value has fewer than 3 characters, by 0.95 when it has a digit, and by 0.98
  when it has a character that is not alphanumeric, a space included; the product is then
  rounded to 2 decimal places.
\<close>

theorem field_confidence_penalties:
  "field_confidence_with mul rnd v (PNum c) = Inr (rnd (foldl mul c (penalties v))) \<and>
   calculate_field_confidence_float v (PNum c) =
     Inr (float_round2 (foldl float_mul c (penalties v))) \<and>
   \<not> isalnum (CHR '' '')"
proof -
  have generic: "field_confidence_with m r v (PNum c) = Inr (r (foldl m c (penalties v)))" for m r
    by (simp add: field_confidence_with_def penalties_def list_ex_iff Let_def)
  have space: "\<not> isalnum (CHR '' '')"
    by (simp add: isalnum_def)
  from generic [of mul rnd] generic [of float_mul float_round2] space show ?thesis
    by (simp add: calculate_field_confidence_float_def)
qed

lemma expo_numeral:
  "expo (numeral k) x =
     (if 2 \<le> x then expo (pred_numeral k) (x / 2) + 1
      else if x < 1 then expo (pred_numeral k) (x * 2) - 1 else 0)"
  by (simp add: numeral_eq_Suc)

lemmas fl_eval = fl_def round_half_even_def expo_numeral Let_def

lemma fl_literals:
  "fl (9 / 10) = 8106479329266893 / 9007199254740992"
  "fl (95 / 100) = 4278419646001971 / 4503599627370496"
  "fl (98 / 100) = 2206763817411543 / 2251799813685248"
  "fl (8293 / 100) = 1458919988663419 / 17592186044416"
  "fl (8294 / 100) = 1459095910523863 / 17592186044416"
  "fl 98 = 98"
  "fl 100 = 100"
  by (simp_all add: fl_eval)

lemma float_mul_97_short:
  "float_mul 97 (9 / 10) = 6143191366710067 / 70368744177664"
  unfolding float_mul_def fl_literals by (simp add: fl_eval)

lemma float_mul_97_digit:
  "float_mul (6143191366710067 / 70368744177664) (95 / 100) = 5836031798374563 / 70368744177664"
  unfolding float_mul_def fl_literals by (simp add: fl_eval)

lemma float_round2_97:
  "float_round2 (5836031798374563 / 70368744177664) = fl (8293 / 100)"
proof -
  have "py_round (5836031798374563 / 70368744177664) 2 = 8293 / 100"
    by (simp add: py_round_def Let_def)
  then show ?thesis by (simp only: float_round2_def)
qed

lemma float_mul_100_special: "float_mul 100 (98 / 100) = 98"
  unfolding float_mul_def fl_literals by (simp add: fl_eval)

lemma float_round2_whole: "float_round2 98 = 98" "float_round2 100 = 100"
proof -
  have "py_round 98 2 = 98" "py_round 100 2 = 100"
    by (simp_all add: py_round_def Let_def)
  then show "float_round2 98 = 98" "float_round2 100 = 100"
    by (simp_all only: float_round2_def fl_literals)
qed

theorem field_confidence_penalties_witness:
  "calculate_field_confidence_float ''42'' (PNum 97) = Inr (fl (8293 / 100)) \<and>
   fl (8293 / 100) \<noteq> fl (8294 / 100)"
proof -
  have p: "penalties ''42'' = [9 / 10, 95 / 100]"
    by (simp add: penalties_def isdigit_def isalnum_def)
  have m: "float_round2 (foldl float_mul 97 [9 / 10, 95 / 100]) = fl (8293 / 100)"
    by (simp only: foldl.simps float_mul_97_short float_mul_97_digit float_round2_97)
  have d: "fl (8293 / 100) \<noteq> fl (8294 / 100)"
    unfolding fl_literals by simp
  have "calculate_field_confidence_float ''42'' (PNum 97) =
          Inr (float_round2 (foldl float_mul 97 (penalties ''42'')))"
    using field_confidence_penalties [of float_mul float_round2 "''42''" 97] by blast
  then have "calculate_field_confidence_float ''42'' (PNum 97) = Inr (fl (8293 / 100))"
    unfolding p m .
  with d show ?thesis by blast
qed

text \<open>
  The claim as stated fails on a value with a space: for \<open>Acme Corp\<close> at base confidence
  100 the code returns 98.0, in double precision as in exact arithmetic, where the
  claim's rule gives 100.
\<close>

theorem field_confidence_space_counterexample:
  "calculate_field_confidence_float ''Acme Corp'' (PNum 100) = Inr 98 \<and>
   claimed_field_confidence_with float_mul float_round2 ''Acme Corp'' 100 = 100 \<and>
   calculate_field_confidence ''Acme Corp'' (PNum 100) = Inr 98"
proof -
  have "calculate_field_confidence_float ''Acme Corp'' (PNum 100) =
          Inr (float_round2 (float_mul 100 (98 / 100)))"
    by (simp add: calculate_field_confidence_float_def field_confidence_with_def isdigit_def
        isalnum_def)
  then have a: "calculate_field_confidence_float ''Acme Corp'' (PNum 100) = Inr 98"
    unfolding float_mul_100_special float_round2_whole .
  have "claimed_field_confidence_with float_mul float_round2 ''Acme Corp'' 100 = float_round2 100"
    by (simp add: claimed_field_confidence_with_def isdigit_def isalnum_def)
  then have b: "claimed_field_confidence_with float_mul float_round2 ''Acme Corp'' 100 = 100"
    unfolding float_round2_whole .
  have c: "calculate_field_confidence ''Acme Corp'' (PNum 100) = Inr 98"
    by (simp add: calculate_field_confidence_def isdigit_def isalnum_def py_round_def Let_def)
  from a b c show ?thesis by blast
qed







section \<open>Recognition of a document\<close>

text \<open>
  C2. The first statement of \<open>process_document\<close> reads \<open>time\<close>, which the module never
  imports, so for every document, every report and every reading of the clock the call
  raises NameError and leaves the document as it was: no result and no confidence is
  produced.
\<close>

theorem process_document_raises_name_error:
  "process_document py_float settings ext document = (Inl NameError, document)"
  by (simp add: process_document_def lookup_global_def module_globals_def)

text \<open>
  C6. A PNG upload whose page has the rows \<open>Acme\<close> (96) and \<open>Corp\<close> (94) never reaches
  the parsing of its report: \<open>process_document\<close> raises NameError first, and
  \<open>preprocess_image\<close> would raise it for the page. The body of the loop, had it been
  reached, keeps the two rows and records their mean 95, and joins the tokens with a line
  feed, not with a space.
\<close>

theorem page_report_never_parsed:
  "process_document sample_float sample_settings sample_image_externals sample_image_document =
     (Inl NameError, sample_image_document) \<and>
   preprocess_image (Inr sample_page_two_words) = Inl NameError \<and>
   page_step sample_float sample_page_two_words ([], [], None) =
     Inr ([''Acme'' @ [CHR 0x0A] @ ''Corp''], [95], Some 95) \<and>
   ''Acme'' @ [CHR 0x0A] @ ''Corp'' \<noteq> ''Acme Corp''"
  by (simp add: process_document_def preprocess_image_def lookup_global_def module_globals_def
      page_step_def sample_page_two_words_def sample_row_def sample_float_def strip_def
      isspace_def mean_def Let_def)

end
